theory Spec2Isabelle
  imports Complex_Main "HOL-Library.Word"
begin

section \<open>Python values, errors and external collaborators\<close>

text \<open>
  The module \<^verbatim>\<open>raster_loader/io.py\<close> turns blocks of a raster into flat
  dictionaries (records) and back, reprojects the corner coordinates of a record, and
  uploads records in batches. Exceptions are values of the type \<open>error\<close>; a function
  that can raise returns \<open>error + 'a\<close>, with \<open>Inl\<close> for the exception.
  Floating-point numbers are modelled by the reals: coordinates are computed exactly.
\<close>

type_synonym byte = "8 word"

datatype error =
    ImportError
    \<comment> \<open>\<^verbatim>\<open>import_rasterio\<close>, \<^verbatim>\<open>import_bigquery\<close>: the library is not installed\<close>
  | ValueError_unpack
    \<comment> \<open>\<^verbatim>\<open>height, width = arr.shape\<close> on an array that is not 2-D\<close>
  | ValueError_buffer
    \<comment> \<open>\<^verbatim>\<open>np.frombuffer\<close>: buffer size must be a multiple of element size\<close>
  | ValueError_reshape
    \<comment> \<open>\<^verbatim>\<open>ndarray.reshape\<close>: cannot reshape array of size n into the shape\<close>
  | ValueError_crs
    \<comment> \<open>\<^verbatim>\<open>ValueError("Unable to find valid input_crs.")\<close>\<close>
  | AttributeError
    \<comment> \<open>\<^verbatim>\<open>raster_dataset.crs.to_string()\<close> on a raster whose \<^verbatim>\<open>crs\<close> is \<^verbatim>\<open>None\<close>\<close>
  | TypeError_dtype string
    \<comment> \<open>\<^verbatim>\<open>TypeError(f"Invalid dtype: {dtype_str}")\<close>\<close>
  | KeyError string
    \<comment> \<open>a dictionary has no such key\<close>
  | WrongType
    \<comment> \<open>an uncaught TypeError or AttributeError: a field holds a value of the wrong Python type\<close>
  | External string
    \<comment> \<open>an exception raised inside rasterio, pyproj or the BigQuery client\<close>

text \<open>
  The spec's error kinds: a shape mismatch is either of the two ValueErrors numpy raises
  while the payload is reinterpreted and reshaped.
\<close>

fun is_ShapeMismatchError :: "error \<Rightarrow> bool" where
  "is_ShapeMismatchError ValueError_buffer = True"
| "is_ShapeMismatchError ValueError_reshape = True"
| "is_ShapeMismatchError _ = False"

fun and_then :: "error + 'a \<Rightarrow> ('a \<Rightarrow> error + 'b) \<Rightarrow> error + 'b" where
  "and_then (Inl e) f = Inl e"
| "and_then (Inr x) f = f x"

subsection \<open>JSON values\<close>

text \<open>
  \<^verbatim>\<open>json.dumps\<close> and \<^verbatim>\<open>json.loads\<close> belong to the standard library. A JSON text
  is represented by the value it denotes; an object keeps its pairs in order, and a
  later pair wins on lookup, as in the dictionary \<^verbatim>\<open>json.loads\<close> builds.
\<close>

datatype json =
    JNull
  | JBool bool
  | JInt int
  | JFloat real
  | JStr string
  | JArr "json list"
  | JObj "(string \<times> json) list"

datatype pyval =
    PFloat real
  | PInt int
  | PBytes "byte list"
  | PJson json  \<comment> \<open>a \<^verbatim>\<open>str\<close> holding the JSON text of the value\<close>

type_synonym pydict = "string \<rightharpoonup> pyval"

definition getitem :: "pydict \<Rightarrow> string \<Rightarrow> error + pyval" where
  "getitem record k = (case record k of None \<Rightarrow> Inl (KeyError k) | Some v \<Rightarrow> Inr v)"

fun json_loads :: "pyval \<Rightarrow> error + json" where
  "json_loads (PJson j) = Inr j"
| "json_loads _ = Inl WrongType"

fun json_getitem :: "json \<Rightarrow> string \<Rightarrow> error + json" where
  "json_getitem (JObj kvs) k =
     (case map_of (rev kvs) k of None \<Rightarrow> Inl (KeyError k) | Some v \<Rightarrow> Inr v)"
| "json_getitem _ k = Inl WrongType"

subsection \<open>Strings\<close>

fun str_join :: "string \<Rightarrow> string list \<Rightarrow> string" where
  "str_join sep [] = []"
| "str_join sep [x] = x"
| "str_join sep (x # xs) = x @ sep @ str_join sep xs"

text \<open>\<^verbatim>\<open>s.split(c)\<close> for a separator of one character: never the empty list.\<close>

fun str_split :: "char \<Rightarrow> string \<Rightarrow> string list" where
  "str_split sep [] = [[]]"
| "str_split sep (c # cs) =
     (if c = sep then [] # str_split sep cs
      else (case str_split sep cs of
              [] \<Rightarrow> [[c]]
            | t # ts \<Rightarrow> (c # t) # ts))"

text \<open>\<^verbatim>\<open>str.upper\<close> on ASCII text: the letters a to z move to A to Z.\<close>

definition upper_char :: "char \<Rightarrow> char" where
  "upper_char c =
     (let n = (of_char c :: nat)
      in if 97 \<le> n \<and> n \<le> 122 then char_of (n - 32) else c)"

definition str_upper :: "string \<Rightarrow> string" where
  "str_upper s = map upper_char s"

subsection \<open>numpy arrays\<close>

text \<open>
  The fixed-width numeric types, with \<^verbatim>\<open>str(dtype)\<close>, the item size in bytes, and
  \<^verbatim>\<open>np.dtype(name)\<close> on these names. A token outside the table is not understood
  (numpy raises TypeError).
\<close>

datatype dtype =
    Bool | Int8 | UInt8 | Int16 | UInt16 | Int32 | UInt32 | Int64 | UInt64
  | Float16 | Float32 | Float64 | Complex64 | Complex128

fun dtype_name :: "dtype \<Rightarrow> string" where
  "dtype_name Bool = ''bool''"
| "dtype_name Int8 = ''int8''"
| "dtype_name UInt8 = ''uint8''"
| "dtype_name Int16 = ''int16''"
| "dtype_name UInt16 = ''uint16''"
| "dtype_name Int32 = ''int32''"
| "dtype_name UInt32 = ''uint32''"
| "dtype_name Int64 = ''int64''"
| "dtype_name UInt64 = ''uint64''"
| "dtype_name Float16 = ''float16''"
| "dtype_name Float32 = ''float32''"
| "dtype_name Float64 = ''float64''"
| "dtype_name Complex64 = ''complex64''"
| "dtype_name Complex128 = ''complex128''"

fun itemsize :: "dtype \<Rightarrow> nat" where
  "itemsize Bool = 1"
| "itemsize Int8 = 1"
| "itemsize UInt8 = 1"
| "itemsize Int16 = 2"
| "itemsize UInt16 = 2"
| "itemsize Int32 = 4"
| "itemsize UInt32 = 4"
| "itemsize Int64 = 8"
| "itemsize UInt64 = 8"
| "itemsize Float16 = 2"
| "itemsize Float32 = 4"
| "itemsize Float64 = 8"
| "itemsize Complex64 = 8"
| "itemsize Complex128 = 16"

definition all_dtypes :: "dtype list" where
  "all_dtypes = [Bool, Int8, UInt8, Int16, UInt16, Int32, UInt32, Int64, UInt64,
                 Float16, Float32, Float64, Complex64, Complex128]"

definition np_dtype :: "string \<Rightarrow> error + dtype" where
  "np_dtype s =
     (case find (\<lambda>d. dtype_name d = s) all_dtypes of
        None \<Rightarrow> Inl (TypeError_dtype s)
      | Some d \<Rightarrow> Inr d)"

text \<open>
  An array is its type, its shape and its elements in row-major order. An element is
  the bit pattern it occupies in memory, a number below \<open>2 ^ (8 * itemsize)\<close>; bytes
  are in little-endian order.
\<close>

record ndarray =
  dtype :: dtype
  shape :: "nat list"
  elems :: "nat list"

definition ndarray_ok :: "ndarray \<Rightarrow> bool" where
  "ndarray_ok arr \<longleftrightarrow>
     length (elems arr) = prod_list (shape arr) \<and>
     list_all (\<lambda>v. v < 2 ^ (8 * itemsize (dtype arr))) (elems arr)"

fun to_le :: "nat \<Rightarrow> nat \<Rightarrow> byte list" where
  "to_le 0 v = []"
| "to_le (Suc n) v = of_nat (v mod 256) # to_le n (v div 256)"

fun from_le :: "byte list \<Rightarrow> nat" where
  "from_le [] = 0"
| "from_le (b # bs) = unat b + 256 * from_le bs"

definition tobytes :: "ndarray \<Rightarrow> byte list" where
  "tobytes arr = concat (map (to_le (itemsize (dtype arr))) (elems arr))"

definition frombuffer :: "pyval \<Rightarrow> dtype \<Rightarrow> error + ndarray" where
  "frombuffer buf dt =
     (case buf of
        PBytes bs \<Rightarrow>
          (let n = itemsize dt
           in if length bs mod n \<noteq> 0 then Inl ValueError_buffer
              else Inr \<lparr>dtype = dt,
                        shape = [length bs div n],
                        elems = map (\<lambda>i. from_le (take n (drop (i * n) bs)))
                                    [0 ..< length bs div n]\<rparr>)
      | _ \<Rightarrow> Inl WrongType)"

text \<open>
  \<^verbatim>\<open>arr.reshape(newshape)\<close>: one negative entry stands for the dimension to infer;
  otherwise the product of the new shape must be the size of the array.
\<close>

definition reshape :: "ndarray \<Rightarrow> int list \<Rightarrow> error + ndarray" where
  "reshape arr newshape =
     (let size = prod_list (shape arr);
          unknown = length (filter (\<lambda>d. d < 0) newshape);
          s_known = prod_list (map nat (filter (\<lambda>d. 0 \<le> d) newshape))
      in if 1 < unknown then Inl ValueError_reshape
         else if unknown = 1 then
           (if s_known = 0 \<or> size mod s_known \<noteq> 0 then Inl ValueError_reshape
            else Inr (arr\<lparr>shape := map (\<lambda>d. if d < 0 then size div s_known else nat d)
                                      newshape\<rparr>))
         else if size \<noteq> s_known then Inl ValueError_reshape
         else Inr (arr\<lparr>shape := map nat newshape\<rparr>))"

fun as_index :: "pyval \<Rightarrow> error + int" where
  "as_index (PInt n) = Inr n"
| "as_index _ = Inl WrongType"

subsection \<open>Affine transforms\<close>

text \<open>
  \<^verbatim>\<open>Affine(a, b, c, d, e, f)\<close> of the package affine: \<^verbatim>\<open>t * (x, y)\<close> is
  \<open>(x * a + y * b + c, x * d + y * e + f)\<close>, and \<^verbatim>\<open>t.to_gdal()\<close> is
  \<open>(c, a, b, f, d, e)\<close>.
\<close>

datatype affine = Affine real real real real real real

fun affine_mul :: "affine \<Rightarrow> real \<times> real \<Rightarrow> real \<times> real" where
  "affine_mul (Affine sa sb sc sd se sf) (vx, vy) =
     (vx * sa + vy * sb + sc, vx * sd + vy * se + sf)"

fun to_gdal :: "affine \<Rightarrow> real list" where
  "to_gdal (Affine sa sb sc sd se sf) = [sc, sa, sb, sf, sd, se]"

section \<open>The record codec\<close>

definition array_to_record ::
  "ndarray \<Rightarrow> affine \<Rightarrow> int \<Rightarrow> int \<Rightarrow> string \<Rightarrow> string \<Rightarrow> int \<Rightarrow> error + pydict" where
  "array_to_record arr geotransform row_off col_off value_field crs band =
     (case shape arr of
        [height, width] \<Rightarrow>
          (let (lon_NW, lat_NW) =
                 affine_mul geotransform (of_int col_off, of_int row_off);
               (lon_NE, lat_NE) =
                 affine_mul geotransform (of_int (col_off + int width), of_int row_off);
               (lon_SE, lat_SE) =
                 affine_mul geotransform
                   (of_int (col_off + int width), of_int (row_off + int height));
               (lon_SW, lat_SW) =
                 affine_mul geotransform (of_int col_off, of_int (row_off + int height));
               dtype_str = dtype_name (dtype arr);
               value_field = str_join ''_'' [value_field, dtype_str];
               attrs = JObj [(''band'', JInt band),
                             (''value_field'', JStr value_field),
                             (''dtype'', JStr dtype_str),
                             (''crs'', JStr crs),
                             (''gdal_transform'', JArr (map JFloat (to_gdal geotransform))),
                             (''row_off'', JInt row_off),
                             (''col_off'', JInt col_off)]
           in Inr (Map.empty
                    (''lat_NW'' \<mapsto> PFloat lat_NW,
                     ''lon_NW'' \<mapsto> PFloat lon_NW,
                     ''lat_NE'' \<mapsto> PFloat lat_NE,
                     ''lon_NE'' \<mapsto> PFloat lon_NE,
                     ''lat_SE'' \<mapsto> PFloat lat_SE,
                     ''lon_SE'' \<mapsto> PFloat lon_SE,
                     ''lat_SW'' \<mapsto> PFloat lat_SW,
                     ''lon_SW'' \<mapsto> PFloat lon_SW,
                     ''block_height'' \<mapsto> PInt (int height),
                     ''block_width'' \<mapsto> PInt (int width),
                     ''attrs'' \<mapsto> PJson attrs,
                     value_field \<mapsto> PBytes (tobytes arr))))
      | _ \<Rightarrow> Inl ValueError_unpack)"

text \<open>
  The field name is the argument when one is given, and else the entry
  \<^verbatim>\<open>value_field\<close> of the decoded attrs. \<^verbatim>\<open>value_field.split("_")\<close> on a JSON value
  that is not a string is an uncaught AttributeError.
\<close>

definition resolve_value_field :: "pydict \<Rightarrow> string option \<Rightarrow> error + string" where
  "resolve_value_field record value_field =
     (case value_field of
        Some s \<Rightarrow> Inr s
      | None \<Rightarrow>
          and_then (getitem record ''attrs'') (\<lambda>a.
          and_then (json_loads a) (\<lambda>j.
          and_then (json_getitem j ''value_field'') (\<lambda>v.
            case v of JStr s \<Rightarrow> Inr s | _ \<Rightarrow> Inl WrongType))))"

definition record_to_array :: "pydict \<Rightarrow> string option \<Rightarrow> error + ndarray" where
  "record_to_array record value_field =
     and_then (resolve_value_field record value_field) (\<lambda>value_field.
     let dtype_str = last (str_split CHR ''_'' value_field)
     in and_then (np_dtype dtype_str) (\<lambda>dt.
        and_then (getitem record ''block_height'') (\<lambda>bh.
        and_then (getitem record ''block_width'') (\<lambda>bw.
        and_then (getitem record value_field) (\<lambda>buf.
        and_then (frombuffer buf dt) (\<lambda>arr.
        and_then (as_index bh) (\<lambda>h.
        and_then (as_index bw) (\<lambda>w.
          reshape arr [h, w]))))))))"

section \<open>External libraries\<close>

text \<open>
  rasterio, pyproj and the BigQuery client are collaborators outside the module. Their
  behaviour is a parameter of the model: whether each library can be imported, what
  opening a file gives, how a CRS string is parsed, what a transformer returns for a
  pair of coordinates, and whether a bulk load is accepted. \<open>'crs\<close> is the type of
  parsed CRS objects.
\<close>

datatype window = Window int int int int  \<comment> \<open>\<^verbatim>\<open>Window(col_off, row_off, width, height)\<close>\<close>

fun window_col_off :: "window \<Rightarrow> int" where
  "window_col_off (Window c r w h) = c"

fun window_row_off :: "window \<Rightarrow> int" where
  "window_row_off (Window c r w h) = r"

record dataset =
  ds_crs :: "string option"
    \<comment> \<open>\<^verbatim>\<open>raster_dataset.crs\<close>: \<open>None\<close> for a raster with no embedded CRS, else the string
       that \<^verbatim>\<open>to_string()\<close> gives\<close>
  ds_transform :: affine
  ds_block_windows :: "window list"
  ds_read :: "int \<Rightarrow> window \<Rightarrow> error + ndarray"

record 'crs libs =
  rasterio_installed :: bool
  bigquery_installed :: bool
  rasterio_open :: "string \<Rightarrow> error + dataset"
  crs_from_string :: "string \<Rightarrow> error + 'crs"
  transformer_transform :: "'crs \<Rightarrow> 'crs \<Rightarrow> pyval \<times> pyval \<Rightarrow> error + pyval \<times> pyval"
  load_table_from_dataframe :: "pydict list \<Rightarrow> string \<Rightarrow> error option"

definition import_rasterio :: "'crs libs \<Rightarrow> error + unit" where
  "import_rasterio L = (if rasterio_installed L then Inr () else Inl ImportError)"

definition import_bigquery :: "'crs libs \<Rightarrow> error + unit" where
  "import_bigquery L = (if bigquery_installed L then Inr () else Inl ImportError)"

section \<open>Reprojection\<close>

definition corner_columns :: "(string \<times> string) list" where
  "corner_columns =
     [(''lon_NW'', ''lat_NW''),
      (''lon_NE'', ''lat_NE''),
      (''lon_SW'', ''lat_SW''),
      (''lon_SE'', ''lat_SE'')]"

definition coordinate_fields :: "string set" where
  "coordinate_fields =
     {''lat_NW'', ''lon_NW'', ''lat_NE'', ''lon_NE'',
      ''lat_SE'', ''lon_SE'', ''lat_SW'', ''lon_SW''}"

text \<open>
  The loop of \<^verbatim>\<open>reproject_record\<close> over the four pairs of columns, on the state of
  the dictionary: it stops at the first exception and keeps what it has stored so far.
  \<open>transformer_transform\<close> stands for building the transformer from the two CRS
  objects and applying it to one pair of values.
\<close>

fun reproject_columns ::
  "'crs libs \<Rightarrow> 'crs \<Rightarrow> 'crs \<Rightarrow> (string \<times> string) list \<Rightarrow> pydict \<Rightarrow> pydict \<times> error option" where
  "reproject_columns L src dst [] record = (record, None)"
| "reproject_columns L src dst ((lon_col, lat_col) # cols) record =
     (case and_then (getitem record lon_col) (\<lambda>xx.
           and_then (getitem record lat_col) (\<lambda>yy.
             transformer_transform L src dst (xx, yy))) of
        Inl e \<Rightarrow> (record, Some e)
      | Inr (x, y) \<Rightarrow>
          reproject_columns L src dst cols (record(lon_col \<mapsto> x, lat_col \<mapsto> y)))"

text \<open>
  \<^verbatim>\<open>reproject_record\<close> by state passing: the dictionary after the call, and the
  exception if the call raised.
\<close>

definition reproject_record ::
  "'crs libs \<Rightarrow> pydict \<Rightarrow> string \<Rightarrow> string \<Rightarrow> pydict \<times> error option" where
  "reproject_record L record src_crs dst_crs =
     (case and_then (import_rasterio L) (\<lambda>_.
           and_then (crs_from_string L src_crs) (\<lambda>src.
           and_then (crs_from_string L dst_crs) (\<lambda>dst. Inr (src, dst)))) of
        Inl e \<Rightarrow> (record, Some e)
      | Inr (src, dst) \<Rightarrow> reproject_columns L src dst corner_columns record)"

text \<open>
  The same call on a store of dictionaries, where the argument is a reference: the
  dictionary at that address is updated in place and the reference itself is returned.
\<close>

type_synonym ref = nat
type_synonym heap = "ref \<Rightarrow> pydict"

definition reproject_record_at ::
  "'crs libs \<Rightarrow> heap \<Rightarrow> ref \<Rightarrow> string \<Rightarrow> string \<Rightarrow> heap \<times> (error + ref)" where
  "reproject_record_at L h r src_crs dst_crs =
     (case reproject_record L (h r) src_crs dst_crs of
        (record, None) \<Rightarrow> (h(r := record), Inr r)
      | (record, Some e) \<Rightarrow> (h(r := record), Inl e))"

section \<open>The raster source adapter\<close>

text \<open>
  A generator is the finite list of the records it yields, and the exception that ends
  it, if one does. The body of the loop builds one record from one window. What the
  module prints (the warning when \<^verbatim>\<open>input_crs\<close> differs from the CRS of the raster,
  the messages around an upload) changes no result and is left out. The CRS of the
  raster is read first, by \<^verbatim>\<open>raster_dataset.crs.to_string()\<close>, before
  \<^verbatim>\<open>input_crs\<close> is looked at: on a raster with no embedded CRS this call raises.
\<close>

definition window_to_record ::
  "'crs libs \<Rightarrow> dataset \<Rightarrow> int \<Rightarrow> string \<Rightarrow> window \<Rightarrow> error + pydict" where
  "window_to_record L raster_dataset band input_crs window =
     and_then (ds_read raster_dataset band window) (\<lambda>arr.
     and_then (array_to_record arr (ds_transform raster_dataset)
                 (window_row_off window) (window_col_off window)
                 ''band_1'' input_crs band) (\<lambda>rec.
       if str_upper input_crs \<noteq> ''EPSG:4326'' then
         (case reproject_record L rec input_crs ''EPSG:4326'' of
            (rec, None) \<Rightarrow> Inr rec
          | (rec, Some e) \<Rightarrow> Inl e)
       else Inr rec))"

fun windows_loop ::
  "'crs libs \<Rightarrow> dataset \<Rightarrow> int \<Rightarrow> string \<Rightarrow> window list \<Rightarrow> pydict list \<times> error option" where
  "windows_loop L raster_dataset band input_crs [] = ([], None)"
| "windows_loop L raster_dataset band input_crs (window # windows) =
     (case window_to_record L raster_dataset band input_crs window of
        Inl e \<Rightarrow> ([], Some e)
      | Inr rec \<Rightarrow>
          (case windows_loop L raster_dataset band input_crs windows of
             (recs, e) \<Rightarrow> (rec # recs, e)))"

definition rasterio_windows_to_records ::
  "'crs libs \<Rightarrow> string \<Rightarrow> int \<Rightarrow> string option \<Rightarrow> pydict list \<times> error option" where
  "rasterio_windows_to_records L file_path band input_crs =
     (case and_then (import_rasterio L) (\<lambda>_. rasterio_open L file_path) of
        Inl e \<Rightarrow> ([], Some e)
      | Inr raster_dataset \<Rightarrow>
          (case ds_crs raster_dataset of
             None \<Rightarrow> ([], Some AttributeError)
           | Some raster_crs \<Rightarrow>
               (let input_crs = (case input_crs of None \<Rightarrow> raster_crs | Some s \<Rightarrow> s)
                in if input_crs = [] then ([], Some ValueError_crs)
                   else windows_loop L raster_dataset band input_crs
                          (ds_block_windows raster_dataset))))"

definition get_number_of_blocks :: "'crs libs \<Rightarrow> string \<Rightarrow> error + nat" where
  "get_number_of_blocks L file_path =
     and_then (import_rasterio L) (\<lambda>_.
     and_then (rasterio_open L file_path) (\<lambda>raster_dataset.
       Inr (length (ds_block_windows raster_dataset))))"

section \<open>The warehouse sink and the chunked upload\<close>

text \<open>
  A function that uploads returns the list of the bulk loads it has issued, each with
  its rows and its destination, and the exception if it raised. \<^verbatim>\<open>pd.DataFrame\<close>
  consumes its argument first, so an exception of the generator comes before the load.
  Whether the client is given or built by the function, the loads reach the same
  warehouse, so the client is no argument here.
\<close>

type_synonym load_call = "pydict list \<times> string"

definition records_to_bigquery ::
  "'crs libs \<Rightarrow> pydict list \<times> error option \<Rightarrow> string \<Rightarrow> string \<Rightarrow> string \<Rightarrow>
   load_call list \<times> error option" where
  "records_to_bigquery L records table_id dataset_id project_id =
     (case import_bigquery L of
        Inl e \<Rightarrow> ([], Some e)
      | Inr _ \<Rightarrow>
          (case records of
             (rows, Some e) \<Rightarrow> ([], Some e)
           | (rows, None) \<Rightarrow>
               (let destination = project_id @ ''.'' @ dataset_id @ ''.'' @ table_id
                in ([(rows, destination)], load_table_from_dataframe L rows destination))))"

text \<open>
  The loop of the chunked branch over the records the generator yields: the buffer
  \<^verbatim>\<open>records\<close>, the loads issued so far and the position of the progress bar are the
  state. It returns the buffer left when the source is exhausted.
\<close>

fun chunk_loop ::
  "'crs libs \<Rightarrow> string \<Rightarrow> string \<Rightarrow> string \<Rightarrow> int \<Rightarrow> pydict list \<Rightarrow>
   pydict list \<Rightarrow> load_call list \<Rightarrow> int \<Rightarrow>
   load_call list \<times> int \<times> (error + pydict list)" where
  "chunk_loop L table_id dataset_id project_id chunk_size [] records calls pbar =
     (calls, pbar, Inr records)"
| "chunk_loop L table_id dataset_id project_id chunk_size (record # rest) records calls pbar =
     (let records = records @ [record]
      in if chunk_size \<le> int (length records) then
           (case records_to_bigquery L (records, None) table_id dataset_id project_id of
              (cs, Some e) \<Rightarrow> (calls @ cs, pbar, Inl e)
            | (cs, None) \<Rightarrow>
                chunk_loop L table_id dataset_id project_id chunk_size rest []
                  (calls @ cs) (pbar + chunk_size))
         else chunk_loop L table_id dataset_id project_id chunk_size rest records calls pbar)"

fun digit_char :: "nat \<Rightarrow> char" where
  "digit_char n = char_of (48 + n)"

fun str_of_nat :: "nat \<Rightarrow> string" where
  "str_of_nat n = (if n < 10 then [digit_char n] else str_of_nat (n div 10) @ [digit_char (n mod 10)])"

definition str_of_int :: "int \<Rightarrow> string" where
  "str_of_int i = (if i < 0 then CHR ''-'' # str_of_nat (nat (- i)) else str_of_nat (nat i))"

datatype crs_arg = CrsInt int | CrsStr string

text \<open>
  \<^verbatim>\<open>if isinstance(input_crs, int): input_crs = "EPSG:{}".format(input_crs)\<close>
\<close>

fun epsg_if_int :: "crs_arg option \<Rightarrow> string option" where
  "epsg_if_int (Some (CrsInt n)) = Some (''EPSG:'' @ str_of_int n)"
| "epsg_if_int (Some (CrsStr s)) = Some s"
| "epsg_if_int None = None"

text \<open>
  \<^verbatim>\<open>rasterio_to_bigquery\<close>: the loads issued, the position of the progress bar, and
  \<^verbatim>\<open>True\<close> or the exception. The generator is lazy, so the blocks are counted before
  its first record is asked for.
\<close>

definition rasterio_to_bigquery ::
  "'crs libs \<Rightarrow> string \<Rightarrow> string \<Rightarrow> string \<Rightarrow> string \<Rightarrow> int \<Rightarrow> int option \<Rightarrow>
   crs_arg option \<Rightarrow> load_call list \<times> int \<times> (error + bool)" where
  "rasterio_to_bigquery L file_path table_id dataset_id project_id band chunk_size input_crs =
     (let input_crs = epsg_if_int input_crs;
          records_gen = rasterio_windows_to_records L file_path band input_crs
      in case chunk_size of
           None \<Rightarrow>
             (case records_to_bigquery L records_gen table_id dataset_id project_id of
                (cs, Some e) \<Rightarrow> (cs, 0, Inl e)
              | (cs, None) \<Rightarrow> (cs, 0, Inr True))
         | Some chunk_size \<Rightarrow>
             (case get_number_of_blocks L file_path of
                Inl e \<Rightarrow> ([], 0, Inl e)
              | Inr total_blocks \<Rightarrow>
                  (case chunk_loop L table_id dataset_id project_id chunk_size
                          (fst records_gen) [] [] 0 of
                     (calls, pbar, Inl e) \<Rightarrow> (calls, pbar, Inl e)
                   | (calls, pbar, Inr records) \<Rightarrow>
                       (case snd records_gen of
                          Some e \<Rightarrow> (calls, pbar, Inl e)
                        | None \<Rightarrow>
                            if 0 < length records then
                              (case records_to_bigquery L (records, None)
                                      table_id dataset_id project_id of
                                 (cs, Some e) \<Rightarrow> (calls @ cs, pbar, Inl e)
                               | (cs, None) \<Rightarrow>
                                   (calls @ cs, pbar + int (length records), Inr True))
                            else (calls, pbar, Inr True)))))"

section \<open>Reading a record\<close>

text \<open>
  The eleven keys every record has. The corner stored under a label is the pair of
  the fields \<^verbatim>\<open>lon_\<close> and \<^verbatim>\<open>lat_\<close> with that label.
\<close>

definition fixed_keys :: "string set" where
  "fixed_keys =
     {''lat_NW'', ''lon_NW'', ''lat_NE'', ''lon_NE'', ''lat_SE'', ''lon_SE'',
      ''lat_SW'', ''lon_SW'', ''block_height'', ''block_width'', ''attrs''}"

definition corner :: "pydict \<Rightarrow> string \<Rightarrow> error + pyval \<times> pyval" where
  "corner record label =
     and_then (getitem record (''lon_'' @ label)) (\<lambda>lon.
     and_then (getitem record (''lat_'' @ label)) (\<lambda>lat. Inr (lon, lat)))"

fun point :: "real \<times> real \<Rightarrow> error + pyval \<times> pyval" where
  "point (x, y) = Inr (PFloat x, PFloat y)"

text \<open>
  A key without its last token, in the words of the specification: the dtype suffix is
  the last underscore-delimited token of the dynamic key.
\<close>

definition strip_dtype_suffix :: "string \<Rightarrow> string" where
  "strip_dtype_suffix k = str_join ''_'' (butlast (str_split CHR ''_'' k))"

section \<open>Example inputs\<close>

definition identity :: affine where
  "identity = Affine 1 0 0 0 1 0"

definition north_up :: affine where
  "north_up = Affine 2 0 10 0 (- 2) 50"

definition zeros_2x3 :: ndarray where
  "zeros_2x3 = \<lparr>dtype = UInt8, shape = [2, 3], elems = [0, 0, 0, 0, 0, 0]\<rparr>"

definition block_int16 :: ndarray where
  "block_int16 = \<lparr>dtype = Int16, shape = [2, 2], elems = [1, 65535, 256, 513]\<rparr>"

text \<open>
  The record of the 2 by 3 block of zeros under the identity transform, at offsets 0,
  with the default field name, CRS and band.
\<close>

definition zeros_record :: pydict where
  "zeros_record =
     Map.empty
       (''lat_NW'' \<mapsto> PFloat 0,
        ''lon_NW'' \<mapsto> PFloat 0,
        ''lat_NE'' \<mapsto> PFloat 0,
        ''lon_NE'' \<mapsto> PFloat 3,
        ''lat_SE'' \<mapsto> PFloat 2,
        ''lon_SE'' \<mapsto> PFloat 3,
        ''lat_SW'' \<mapsto> PFloat 2,
        ''lon_SW'' \<mapsto> PFloat 0,
        ''block_height'' \<mapsto> PInt 2,
        ''block_width'' \<mapsto> PInt 3,
        ''attrs'' \<mapsto> PJson (JObj [(''band'', JInt 1),
                                  (''value_field'', JStr ''band_1_uint8''),
                                  (''dtype'', JStr ''uint8''),
                                  (''crs'', JStr ''EPSG:4326''),
                                  (''gdal_transform'',
                                     JArr [JFloat 0, JFloat 1, JFloat 0,
                                           JFloat 0, JFloat 0, JFloat 1]),
                                  (''row_off'', JInt 0),
                                  (''col_off'', JInt 0)]),
        ''band_1_uint8'' \<mapsto> PBytes [0, 0, 0, 0, 0, 0])"

text \<open>
  A record of a 2 by 2 block of int16 with a payload of the given bytes, and nothing
  else that decoding reads.
\<close>

definition int16_record :: "byte list \<Rightarrow> pydict" where
  "int16_record payload =
     Map.empty
       (''block_height'' \<mapsto> PInt 2,
        ''block_width'' \<mapsto> PInt 2,
        ''attrs'' \<mapsto> PJson (JObj [(''value_field'', JStr ''band_1_int16'')]),
        ''band_1_int16'' \<mapsto> PBytes payload)"

text \<open>
  A projection engine that moves every point by (100, 200), a raster of two blocks of
  zeros in UTM zone 33N, and libraries that are installed and accept every load.
\<close>

fun shift_transform :: "string \<Rightarrow> string \<Rightarrow> pyval \<times> pyval \<Rightarrow> error + pyval \<times> pyval" where
  "shift_transform src dst (PFloat x, PFloat y) = Inr (PFloat (x + 100), PFloat (y + 200))"
| "shift_transform src dst _ = Inl WrongType"

definition utm_dataset :: dataset where
  "utm_dataset =
     \<lparr>ds_crs = Some ''EPSG:32633'',
      ds_transform = identity,
      ds_block_windows = [Window 0 0 3 2, Window 3 0 3 2],
      ds_read = (\<lambda>band window. Inr zeros_2x3)\<rparr>"

definition libs_for :: "dataset \<Rightarrow> string libs" where
  "libs_for ds =
     \<lparr>rasterio_installed = True,
      bigquery_installed = True,
      rasterio_open = (\<lambda>file_path. Inr ds),
      crs_from_string = Inr,
      transformer_transform = shift_transform,
      load_table_from_dataframe = (\<lambda>rows destination. None)\<rparr>"

definition zeros_heap :: heap where
  "zeros_heap = (\<lambda>r. Map.empty)(0 := zeros_record, 1 := int16_record [])"

text \<open>The record of the block of zeros after that engine has moved its four corners.\<close>

definition zeros_record_shifted :: pydict where
  "zeros_record_shifted =
     zeros_record
       (''lon_NW'' \<mapsto> PFloat 100, ''lat_NW'' \<mapsto> PFloat 200,
        ''lon_NE'' \<mapsto> PFloat 103, ''lat_NE'' \<mapsto> PFloat 200,
        ''lon_SW'' \<mapsto> PFloat 100, ''lat_SW'' \<mapsto> PFloat 202,
        ''lon_SE'' \<mapsto> PFloat 103, ''lat_SE'' \<mapsto> PFloat 202)"


definition no_crs_dataset :: dataset where
  "no_crs_dataset = utm_dataset\<lparr>ds_crs := None\<rparr>"

section \<open>Lemmas on strings, bytes and arrays\<close>

lemma dtype_name_no_us: "CHR ''_'' \<notin> set (dtype_name d)"
  by (cases d) simp_all

lemma np_dtype_name: "np_dtype (dtype_name d) = Inr d"
  by (cases d) (simp_all add: np_dtype_def all_dtypes_def)

lemma itemsize_pos: "0 < itemsize d"
  by (cases d) simp_all

lemma str_split_nonempty: "str_split sep s \<noteq> []"
  by (induction s) (auto split: list.splits)

lemma str_split_no_sep: "sep \<notin> set s \<Longrightarrow> str_split sep s = [s]"
  by (induction s) auto

lemma str_split_append:
  "str_split sep (f @ sep # n) = str_split sep f @ str_split sep n"
proof (induction f)
  case Nil
  show ?case by simp
next
  case (Cons c f)
  obtain t ts where ts: "str_split sep f = t # ts"
    using str_split_nonempty [of sep f] by (cases "str_split sep f") auto
  show ?case using Cons ts by simp
qed

lemma last_split_join:
  assumes "sep \<notin> set n"
  shows "last (str_split sep (f @ sep # n)) = n"
  by (simp add: str_split_append str_split_no_sep [OF assms])

lemma last_split_key:
  "last (str_split CHR ''_'' (f @ ''_'' @ dtype_name d)) = dtype_name d"
  using last_split_join [OF dtype_name_no_us, of f d] by simp

text \<open>The dynamic key is none of the eleven fixed keys.\<close>

lemma last_split_fixed:
  "k \<in> fixed_keys \<Longrightarrow> last (str_split CHR ''_'' k) \<in> {''NW'', ''NE'', ''SE'', ''SW'', ''height'', ''width'', ''attrs''}"
  by (auto simp: fixed_keys_def)

lemma dtype_name_not_suffix:
  "dtype_name d \<notin> {''NW'', ''NE'', ''SE'', ''SW'', ''height'', ''width'', ''attrs''}"
  by (cases d) simp_all

lemma key_not_fixed: "f @ ''_'' @ dtype_name d \<notin> fixed_keys"
proof
  assume "f @ ''_'' @ dtype_name d \<in> fixed_keys"
  from last_split_fixed [OF this] show False
    unfolding last_split_key using dtype_name_not_suffix [of d] by simp
qed

lemma key_neq:
  "f @ CHR ''_'' # dtype_name d \<noteq> ''lat_NW''"
  "f @ CHR ''_'' # dtype_name d \<noteq> ''lon_NW''"
  "f @ CHR ''_'' # dtype_name d \<noteq> ''lat_NE''"
  "f @ CHR ''_'' # dtype_name d \<noteq> ''lon_NE''"
  "f @ CHR ''_'' # dtype_name d \<noteq> ''lat_SE''"
  "f @ CHR ''_'' # dtype_name d \<noteq> ''lon_SE''"
  "f @ CHR ''_'' # dtype_name d \<noteq> ''lat_SW''"
  "f @ CHR ''_'' # dtype_name d \<noteq> ''lon_SW''"
  "f @ CHR ''_'' # dtype_name d \<noteq> ''block_height''"
  "f @ CHR ''_'' # dtype_name d \<noteq> ''block_width''"
  "f @ CHR ''_'' # dtype_name d \<noteq> ''attrs''"
  using key_not_fixed [of f d] by (auto simp: fixed_keys_def)

lemma from_le_to_le: "from_le (to_le n v) = v mod 256 ^ n"
proof (induction n arbitrary: v)
  case 0
  show ?case by simp
next
  case (Suc n)
  have "unat (of_nat (v mod 256) :: byte) = v mod 256"
    by (simp add: unat_of_nat)
  then show ?case using Suc [of "v div 256"]
    by (simp add: mod_mult2_eq)
qed

lemma length_to_le: "length (to_le n v) = n"
  by (induction n arbitrary: v) auto

lemma take_drop_concat:
  assumes "\<forall>xs \<in> set xss. length xs = n" and "i < length xss"
  shows "take n (drop (i * n) (concat xss)) = xss ! i"
  using assms
proof (induction xss arbitrary: i)
  case Nil
  then show ?case by simp
next
  case (Cons xs xss)
  show ?case
  proof (cases i)
    case 0
    then show ?thesis using Cons.prems by simp
  next
    case (Suc j)
    then show ?thesis using Cons.prems Cons.IH [of j] by simp
  qed
qed

lemma length_concat_const:
  "\<forall>xs \<in> set xss. length xs = n \<Longrightarrow> length (concat xss) = length xss * n"
  by (induction xss) auto

lemma length_tobytes: "length (tobytes arr) = length (elems arr) * itemsize (dtype arr)"
  unfolding tobytes_def
  by (subst length_concat_const [where n = "itemsize (dtype arr)"]) (auto simp: length_to_le)

lemma frombuffer_tobytes:
  assumes "list_all (\<lambda>v. v < 2 ^ (8 * itemsize (dtype arr))) (elems arr)"
  shows "frombuffer (PBytes (tobytes arr)) (dtype arr) =
         Inr \<lparr>dtype = dtype arr, shape = [length (elems arr)], elems = elems arr\<rparr>"
proof -
  let ?n = "itemsize (dtype arr)"
  let ?bs = "tobytes arr"
  have pos: "0 < ?n" by (rule itemsize_pos)
  have len: "length ?bs = length (elems arr) * ?n" by (rule length_tobytes)
  have chunk: "from_le (take ?n (drop (i * ?n) ?bs)) = elems arr ! i"
    if "i < length (elems arr)" for i
  proof -
    have "take ?n (drop (i * ?n) ?bs) = map (to_le ?n) (elems arr) ! i"
      unfolding tobytes_def using that
      by (intro take_drop_concat) (auto simp: length_to_le)
    also have "\<dots> = to_le ?n (elems arr ! i)" using that by simp
    finally have "from_le (take ?n (drop (i * ?n) ?bs)) = elems arr ! i mod 256 ^ ?n"
      by (simp add: from_le_to_le)
    moreover have "elems arr ! i < 2 ^ (8 * ?n)"
      using assms that by (simp add: list_all_length)
    moreover have "(256::nat) ^ ?n = 2 ^ (8 * ?n)"
      by (simp add: power_mult)
    ultimately show ?thesis by simp
  qed
  have "map (\<lambda>i. from_le (take ?n (drop (i * ?n) ?bs))) [0 ..< length (elems arr)] = elems arr"
    by (rule nth_equalityI) (simp_all add: chunk)
  then show ?thesis
    using pos len by (simp add: frombuffer_def)
qed

lemma reshape_2d:
  assumes "prod_list (shape arr) = h * w"
  shows "reshape arr [int h, int w] = Inr (arr\<lparr>shape := [h, w]\<rparr>)"
  using assms by (simp add: reshape_def)


lemma array_to_record_2d:
  assumes "shape arr = [h, w]"
  shows "array_to_record arr t r c f crs band =
     Inr (Map.empty
           (''lat_NW'' \<mapsto> PFloat (snd (affine_mul t (of_int c, of_int r))),
            ''lon_NW'' \<mapsto> PFloat (fst (affine_mul t (of_int c, of_int r))),
            ''lat_NE'' \<mapsto> PFloat (snd (affine_mul t (of_int (c + int w), of_int r))),
            ''lon_NE'' \<mapsto> PFloat (fst (affine_mul t (of_int (c + int w), of_int r))),
            ''lat_SE'' \<mapsto> PFloat (snd (affine_mul t (of_int (c + int w), of_int (r + int h)))),
            ''lon_SE'' \<mapsto> PFloat (fst (affine_mul t (of_int (c + int w), of_int (r + int h)))),
            ''lat_SW'' \<mapsto> PFloat (snd (affine_mul t (of_int c, of_int (r + int h)))),
            ''lon_SW'' \<mapsto> PFloat (fst (affine_mul t (of_int c, of_int (r + int h)))),
            ''block_height'' \<mapsto> PInt (int h),
            ''block_width'' \<mapsto> PInt (int w),
            ''attrs'' \<mapsto> PJson (JObj [(''band'', JInt band),
                             (''value_field'', JStr (f @ ''_'' @ dtype_name (dtype arr))),
                             (''dtype'', JStr (dtype_name (dtype arr))),
                             (''crs'', JStr crs),
                             (''gdal_transform'', JArr (map JFloat (to_gdal t))),
                             (''row_off'', JInt r),
                             (''col_off'', JInt c)]),
            f @ ''_'' @ dtype_name (dtype arr) \<mapsto> PBytes (tobytes arr)))"
  using assms by (simp add: array_to_record_def Let_def split_beta)

lemma array_to_record_Inr:
  assumes "array_to_record arr t r c f crs band = Inr record"
  obtains h w where "shape arr = [h, w]"
  using assms by (auto simp: array_to_record_def split: list.splits)

lemma point_eq: "point p = Inr (PFloat (fst p), PFloat (snd p))"
  by (cases p) simp

lemmas key_neq_sym = key_neq [symmetric]

lemma encoded_fields:
  assumes hw: "shape arr = [h, w]" and enc: "array_to_record arr t r c f crs band = Inr record"
  shows "record ''block_height'' = Some (PInt (int h))"
    and "record ''block_width'' = Some (PInt (int w))"
    and "record (f @ ''_'' @ dtype_name (dtype arr)) = Some (PBytes (tobytes arr))"
    and "resolve_value_field record None = Inr (f @ ''_'' @ dtype_name (dtype arr))"
proof -
  note R = enc [unfolded array_to_record_2d [OF hw] sum.inject, symmetric]
  show "record ''block_height'' = Some (PInt (int h))"
    unfolding R by (simp add: key_neq key_neq_sym)
  show "record ''block_width'' = Some (PInt (int w))"
    unfolding R by (simp add: key_neq key_neq_sym)
  show "record (f @ ''_'' @ dtype_name (dtype arr)) = Some (PBytes (tobytes arr))"
    unfolding R by simp
  show "resolve_value_field record None = Inr (f @ ''_'' @ dtype_name (dtype arr))"
    unfolding R resolve_value_field_def getitem_def
    by (simp add: key_neq key_neq_sym)
qed

lemma encoded_corners:
  assumes hw: "shape arr = [h, w]" and enc: "array_to_record arr t r c f crs band = Inr record"
  shows "corner record ''NW'' = point (affine_mul t (of_int c, of_int r))"
    and "corner record ''NE'' = point (affine_mul t (of_int (c + int w), of_int r))"
    and "corner record ''SE'' = point (affine_mul t (of_int (c + int w), of_int (r + int h)))"
    and "corner record ''SW'' = point (affine_mul t (of_int c, of_int (r + int h)))"
proof -
  note R = enc [unfolded array_to_record_2d [OF hw] sum.inject, symmetric]
  show "corner record ''NW'' = point (affine_mul t (of_int c, of_int r))"
    unfolding R corner_def getitem_def point_eq
    by (simp add: key_neq key_neq_sym)
  show "corner record ''NE'' = point (affine_mul t (of_int (c + int w), of_int r))"
    unfolding R corner_def getitem_def point_eq
    by (simp add: key_neq key_neq_sym)
  show "corner record ''SE'' = point (affine_mul t (of_int (c + int w), of_int (r + int h)))"
    unfolding R corner_def getitem_def point_eq
    by (simp add: key_neq key_neq_sym)
  show "corner record ''SW'' = point (affine_mul t (of_int c, of_int (r + int h)))"
    unfolding R corner_def getitem_def point_eq
    by (simp add: key_neq key_neq_sym)
qed

lemma encoded_dom:
  assumes enc: "array_to_record arr t r c f crs band = Inr record"
  shows "dom record = insert (f @ ''_'' @ dtype_name (dtype arr)) fixed_keys"
proof -
  obtain h w where hw: "shape arr = [h, w]"
    using enc by (rule array_to_record_Inr)
  note R = enc [unfolded array_to_record_2d [OF hw] sum.inject, symmetric]
  show ?thesis
    unfolding R fixed_keys_def by (simp only: dom_fun_upd dom_empty option.simps if_False insert_commute)
qed

lemma decode_encoded:
  assumes ok: "ndarray_ok x" and hw: "shape x = [h, w]"
    and enc: "array_to_record x t r c f crs band = Inr record"
  shows "record_to_array record None = Inr x"
proof -
  let ?key = "f @ ''_'' @ dtype_name (dtype x)"
  have len: "length (elems x) = h * w"
    using ok hw by (simp add: ndarray_ok_def)
  have rng: "list_all (\<lambda>v. v < 2 ^ (8 * itemsize (dtype x))) (elems x)"
    using ok by (simp add: ndarray_ok_def)
  have "reshape \<lparr>dtype = dtype x, shape = [length (elems x)], elems = elems x\<rparr> [int h, int w]
        = Inr (\<lparr>dtype = dtype x, shape = [length (elems x)], elems = elems x\<rparr>\<lparr>shape := [h, w]\<rparr>)"
    by (rule reshape_2d) (simp add: len)
  also have "\<dots> = Inr x" using hw by simp
  finally have rs: "reshape \<lparr>dtype = dtype x, shape = [length (elems x)], elems = elems x\<rparr>
                      [int h, int w] = Inr x" .
  show ?thesis
    unfolding record_to_array_def encoded_fields(4) [OF hw enc]
    using encoded_fields(1-3) [OF hw enc] last_split_key [of f "dtype x"]
    by (simp add: np_dtype_name getitem_def frombuffer_tobytes [OF rng] rs)
qed


section \<open>The record codec: properties\<close>

text \<open>
  C2 (corner geometry). For a block of shape \<open>(h, w)\<close>, a transform \<open>t\<close> and offsets
  \<open>(r, c)\<close>, the record stores under NW, NE, SE and SW the pairs (lon, lat) that \<open>t\<close>
  gives at the pixel points \<open>(c, r)\<close>, \<open>(c + w, r)\<close>, \<open>(c + w, r + h)\<close> and
  \<open>(c, r + h)\<close>.
\<close>

theorem corners_are_transformed_block_corners:
  assumes "shape x = [h, w]"
    and "array_to_record x t r c value_field crs band = Inr record"
  shows "corner record ''NW'' = point (affine_mul t (of_int c, of_int r)) \<and>
         corner record ''NE'' = point (affine_mul t (of_int (c + int w), of_int r)) \<and>
         corner record ''SE'' = point (affine_mul t (of_int (c + int w), of_int (r + int h))) \<and>
         corner record ''SW'' = point (affine_mul t (of_int c, of_int (r + int h)))"
  using encoded_corners [OF assms] by simp

theorem corners_are_transformed_block_corners_witness:
  "shape zeros_2x3 = [2, 3] \<and>
   array_to_record zeros_2x3 identity 0 0 ''band_1'' ''EPSG:4326'' 1 = Inr zeros_record \<and>
   corner zeros_record ''NW'' = point (0, 0) \<and>
   corner zeros_record ''NE'' = point (3, 0) \<and>
   corner zeros_record ''SE'' = point (3, 2) \<and>
   corner zeros_record ''SW'' = point (0, 2)"
proof -
  have s: "shape zeros_2x3 = [2, 3]"
    by (simp add: zeros_2x3_def)
  have e: "array_to_record zeros_2x3 identity 0 0 ''band_1'' ''EPSG:4326'' 1 = Inr zeros_record"
    by (simp add: array_to_record_2d zeros_2x3_def identity_def zeros_record_def tobytes_def)
  show ?thesis
    using s e corners_are_transformed_block_corners [OF s e]
    by (simp add: identity_def)
qed

text \<open>
  C6 (payload size). Every record encoded from an array with as many elements as its
  shape says holds a payload of exactly
  \<open>block_height * block_width * itemsize\<close> bytes under its dynamic key.
\<close>

theorem payload_length_is_shape_times_itemsize:
  assumes "length (elems x) = prod_list (shape x)"
    and "array_to_record x t r c value_field crs band = Inr record"
  shows "\<exists>h w payload.
           record ''block_height'' = Some (PInt h) \<and>
           record ''block_width'' = Some (PInt w) \<and>
           record (value_field @ ''_'' @ dtype_name (dtype x)) = Some (PBytes payload) \<and>
           h * w * int (itemsize (dtype x)) = int (length payload)"
proof -
  obtain h w where hw: "shape x = [h, w]"
    using assms(2) by (rule array_to_record_Inr)
  have "int h * int w * int (itemsize (dtype x)) = int (length (tobytes x))"
    using assms(1) hw by (simp add: length_tobytes)
  then show ?thesis
    using encoded_fields(1-3) [OF hw assms(2)] by blast
qed

theorem payload_length_is_shape_times_itemsize_witness:
  "length (elems block_int16) = prod_list (shape block_int16) \<and>
   (\<exists>record. array_to_record block_int16 north_up 4 6 ''band_1'' ''EPSG:32633'' 1 = Inr record \<and>
     (\<exists>h w payload.
        record ''block_height'' = Some (PInt h) \<and>
        record ''block_width'' = Some (PInt w) \<and>
        record (''band_1'' @ ''_'' @ dtype_name (dtype block_int16)) = Some (PBytes payload) \<and>
        h * w * int (itemsize (dtype block_int16)) = int (length payload)))"
proof -
  have n: "length (elems block_int16) = prod_list (shape block_int16)"
    by (simp add: block_int16_def)
  obtain rcd where
    e: "array_to_record block_int16 north_up 4 6 ''band_1'' ''EPSG:32633'' 1 = Inr rcd"
    using array_to_record_2d [of block_int16 2 2] by (auto simp: block_int16_def)
  show ?thesis
    using n e payload_length_is_shape_times_itemsize [OF n e] by blast
qed

lemma str_join_split: "str_join [sep] (str_split sep s) = s"
proof (induction s)
  case Nil
  show ?case by simp
next
  case (Cons c cs)
  obtain t ts where ts: "str_split sep cs = t # ts"
    using str_split_nonempty [of sep cs] by (cases "str_split sep cs") auto
  show ?case
    using Cons ts by (cases ts) auto
qed

lemma strip_dtype_suffix_key:
  "strip_dtype_suffix (f @ ''_'' @ dtype_name d) = f"
proof -
  have "str_split CHR ''_'' (f @ ''_'' @ dtype_name d) = str_split CHR ''_'' f @ [dtype_name d]"
    using str_split_append [of "CHR ''_''" f "dtype_name d"]
    by (simp add: str_split_no_sep [OF dtype_name_no_us])
  then show ?thesis
    by (simp add: strip_dtype_suffix_def str_join_split)
qed

text \<open>
  C3 (value_field in attrs). As stated, the claim fails: in the record of the 2 by 3
  block of zeros the dynamic key is \<open>band_1_uint8\<close> and the entry
  \<^verbatim>\<open>value_field\<close> of attrs is \<open>band_1_uint8\<close> too, not \<open>band_1\<close>.
\<close>

theorem attrs_value_field_without_suffix_counterexample:
  "array_to_record zeros_2x3 identity 0 0 ''band_1'' ''EPSG:4326'' 1 = Inr zeros_record \<and>
   zeros_record ''band_1_uint8'' = Some (PBytes [0, 0, 0, 0, 0, 0]) \<and>
   strip_dtype_suffix ''band_1_uint8'' = ''band_1'' \<and>
   resolve_value_field zeros_record None = Inr ''band_1_uint8'' \<and>
   resolve_value_field zeros_record None \<noteq> Inr (strip_dtype_suffix ''band_1_uint8'')"
proof -
  have "array_to_record zeros_2x3 identity 0 0 ''band_1'' ''EPSG:4326'' 1 = Inr zeros_record"
    by (simp add: array_to_record_2d zeros_2x3_def identity_def zeros_record_def tobytes_def)
  moreover have "zeros_record ''band_1_uint8'' = Some (PBytes [0, 0, 0, 0, 0, 0])"
    by (simp add: zeros_record_def)
  moreover have "strip_dtype_suffix ''band_1_uint8'' = ''band_1''"
    by (simp add: strip_dtype_suffix_def)
  moreover have "resolve_value_field zeros_record None = Inr ''band_1_uint8''"
    by (simp add: zeros_record_def resolve_value_field_def getitem_def)
  ultimately show ?thesis by simp
qed

text \<open>
  C3, amended. For every record produced by \<^verbatim>\<open>array_to_record\<close> from a base field
  name \<open>f\<close>, the entry \<^verbatim>\<open>value_field\<close> of attrs is the dynamic payload key itself,
  \<open>f\<close>, an underscore and the name of the dtype: the only key of the record beside the
  eleven fixed ones. Its last underscore-delimited token is the name of the dtype, and
  without that token it is \<open>f\<close>.
\<close>

theorem attrs_value_field_is_dynamic_key:
  assumes "array_to_record x t r c f crs band = Inr record"
  shows "resolve_value_field record None = Inr (f @ ''_'' @ dtype_name (dtype x)) \<and>
         dom record - fixed_keys = {f @ ''_'' @ dtype_name (dtype x)} \<and>
         last (str_split CHR ''_'' (f @ ''_'' @ dtype_name (dtype x))) = dtype_name (dtype x) \<and>
         strip_dtype_suffix (f @ ''_'' @ dtype_name (dtype x)) = f"
proof -
  obtain h w where hw: "shape x = [h, w]"
    using assms by (rule array_to_record_Inr)
  have "dom record - fixed_keys = {f @ ''_'' @ dtype_name (dtype x)}"
    using encoded_dom [OF assms] key_not_fixed [of f "dtype x"] by auto
  then show ?thesis
    using encoded_fields(4) [OF hw assms] last_split_key [of f "dtype x"]
      strip_dtype_suffix_key [of f "dtype x"]
    by simp
qed

theorem attrs_value_field_is_dynamic_key_witness:
  "array_to_record zeros_2x3 identity 0 0 ''band_1'' ''EPSG:4326'' 1 = Inr zeros_record \<and>
   resolve_value_field zeros_record None = Inr ''band_1_uint8'' \<and>
   dom zeros_record - fixed_keys = {''band_1_uint8''} \<and>
   last (str_split CHR ''_'' ''band_1_uint8'') = ''uint8'' \<and>
   strip_dtype_suffix ''band_1_uint8'' = ''band_1''"
proof -
  have e: "array_to_record zeros_2x3 identity 0 0 ''band_1'' ''EPSG:4326'' 1 = Inr zeros_record"
    by (simp add: array_to_record_2d zeros_2x3_def identity_def zeros_record_def tobytes_def)
  show ?thesis
    using e attrs_value_field_is_dynamic_key [OF e] by (simp add: zeros_2x3_def)
qed

text \<open>
  C4 (field naming). For every record produced by \<^verbatim>\<open>array_to_record\<close> from a
  well-formed block of dtype \<open>d\<close> and a base field name \<open>f\<close>, the dynamic payload key
  is \<open>f\<close>, an underscore and \<open>str(d)\<close>; decoding without an explicit field name reads
  that key from the entry \<^verbatim>\<open>value_field\<close> of attrs, finds the payload under it and
  succeeds.
\<close>

theorem dynamic_key_named_and_recovered:
  assumes "ndarray_ok x"
    and "array_to_record x t r c f crs band = Inr record"
  shows "dom record - fixed_keys = {f @ ''_'' @ dtype_name (dtype x)} \<and>
         resolve_value_field record None = Inr (f @ ''_'' @ dtype_name (dtype x)) \<and>
         and_then (resolve_value_field record None) (getitem record) = Inr (PBytes (tobytes x)) \<and>
         record_to_array record None = Inr x"
proof -
  obtain h w where hw: "shape x = [h, w]"
    using assms(2) by (rule array_to_record_Inr)
  have "dom record - fixed_keys = {f @ ''_'' @ dtype_name (dtype x)}"
    using encoded_dom [OF assms(2)] key_not_fixed [of f "dtype x"] by auto
  moreover have "and_then (resolve_value_field record None) (getitem record)
                 = Inr (PBytes (tobytes x))"
    using encoded_fields(3,4) [OF hw assms(2)] by (simp add: getitem_def)
  ultimately show ?thesis
    using encoded_fields(4) [OF hw assms(2)] decode_encoded [OF assms(1) hw assms(2)]
    by simp
qed

theorem dynamic_key_named_and_recovered_witness:
  "ndarray_ok zeros_2x3 \<and>
   array_to_record zeros_2x3 identity 0 0 ''band_1'' ''EPSG:4326'' 1 = Inr zeros_record \<and>
   dom zeros_record - fixed_keys = {''band_1_uint8''} \<and>
   resolve_value_field zeros_record None = Inr ''band_1_uint8'' \<and>
   and_then (resolve_value_field zeros_record None) (getitem zeros_record)
     = Inr (PBytes (tobytes zeros_2x3)) \<and>
   record_to_array zeros_record None = Inr zeros_2x3"
proof -
  have k: "ndarray_ok zeros_2x3"
    by (simp add: zeros_2x3_def ndarray_ok_def)
  have e: "array_to_record zeros_2x3 identity 0 0 ''band_1'' ''EPSG:4326'' 1 = Inr zeros_record"
    by (simp add: array_to_record_2d zeros_2x3_def identity_def zeros_record_def tobytes_def)
  have n: "''band_1'' @ ''_'' @ dtype_name (dtype zeros_2x3) = ''band_1_uint8''"
    by (simp add: zeros_2x3_def)
  show ?thesis
    using k e dynamic_key_named_and_recovered [OF k e, unfolded n] by blast
qed

lemma frombuffer_bytes:
  "frombuffer (PBytes bs) d =
     (if length bs mod itemsize d \<noteq> 0 then Inl ValueError_buffer
      else Inr \<lparr>dtype = d, shape = [length bs div itemsize d],
                elems = map (\<lambda>i. from_le (take (itemsize d) (drop (i * itemsize d) bs)))
                            [0 ..< length bs div itemsize d]\<rparr>)"
  by (simp add: frombuffer_def Let_def)

lemma reshape_nonneg:
  assumes "0 \<le> h" and "0 \<le> w"
  shows "reshape arr [h, w] =
     (if prod_list (shape arr) \<noteq> nat h * nat w then Inl ValueError_reshape
      else Inr (arr\<lparr>shape := [nat h, nat w]\<rparr>))"
  using assms by (simp add: reshape_def)

lemma exact_length_iff:
  assumes "0 \<le> h" and "0 \<le> w" and "0 < n"
  shows "int len = h * w * int n \<longleftrightarrow> len mod n = 0 \<and> len div n = nat h * nat w"
proof
  assume "int len = h * w * int n"
  then have "int len = int (nat h * nat w * n)"
    using assms by simp
  then have "len = nat h * nat w * n"
    by (simp only: of_nat_eq_iff)
  then show "len mod n = 0 \<and> len div n = nat h * nat w"
    using assms(3) by simp
next
  assume a: "len mod n = 0 \<and> len div n = nat h * nat w"
  then have "len = nat h * nat w * n"
    by (metis mult.commute mult_div_mod_eq add.right_neutral)
  then have "int len = int (nat h) * int (nat w) * int n"
    by simp
  then show "int len = h * w * int n"
    using assms by simp
qed

text \<open>
  C5 (shape mismatch). As stated, the claim fails: a payload of 16 bytes is an exact
  multiple of \<open>2 * 2 * itemsize int16 = 8\<close>, and still decoding the record of a 2 by 2
  block of int16 with that payload raises: 8 elements do not reshape to 2 by 2.
\<close>

theorem decode_multiple_of_block_size_counterexample:
  "int (length [1, 2, 3, 4, 5, 6, 7, 8, 9, 10, 11, 12, 13, 14, 15, 16 :: byte])
     mod (2 * 2 * int (itemsize Int16)) = 0 \<and>
   record_to_array (int16_record [1, 2, 3, 4, 5, 6, 7, 8, 9, 10, 11, 12, 13, 14, 15, 16]) None
     = Inl ValueError_reshape"
  by (simp add: int16_record_def record_to_array_def resolve_value_field_def getitem_def
        np_dtype_def all_dtypes_def frombuffer_def reshape_def)

text \<open>
  C5, amended. Take a record whose field name resolves, whose last token names a
  supported dtype, whose \<^verbatim>\<open>block_height\<close> and \<^verbatim>\<open>block_width\<close> are integers that
  are not negative, and whose payload is a byte string. \<^verbatim>\<open>record_to_array\<close> fails
  with a shape mismatch whenever the payload byte length is not exactly
  \<open>block_height * block_width * itemsize\<close> (so the record of a 2 by 2 block of int16
  with a payload of 3 bytes fails), and succeeds otherwise, with an array of that type
  and shape.
\<close>

theorem decode_succeeds_iff_exact_length:
  assumes "resolve_value_field record value_field = Inr key"
    and "np_dtype (last (str_split CHR ''_'' key)) = Inr d"
    and "record ''block_height'' = Some (PInt h)"
    and "record ''block_width'' = Some (PInt w)"
    and "0 \<le> h" and "0 \<le> w"
    and "record key = Some (PBytes payload)"
  shows "((\<exists>e. record_to_array record value_field = Inl e \<and> is_ShapeMismatchError e) \<longleftrightarrow>
            int (length payload) \<noteq> h * w * int (itemsize d)) \<and>
         ((\<exists>arr. record_to_array record value_field = Inr arr \<and>
                 dtype arr = d \<and> shape arr = [nat h, nat w]) \<longleftrightarrow>
            int (length payload) = h * w * int (itemsize d))"
proof -
  let ?n = "itemsize d"
  have run: "record_to_array record value_field =
             and_then (frombuffer (PBytes payload) d) (\<lambda>arr. reshape arr [h, w])"
    using assms(1-4,7) by (simp add: record_to_array_def getitem_def)
  have iff: "int (length payload) = h * w * int ?n \<longleftrightarrow>
             length payload mod ?n = 0 \<and> length payload div ?n = nat h * nat w"
    using assms(5,6) itemsize_pos [of d] by (rule exact_length_iff)
  show ?thesis
  proof (cases "length payload mod ?n = 0")
    case False
    then have "record_to_array record value_field = Inl ValueError_buffer"
      unfolding run by (simp add: frombuffer_bytes)
    then show ?thesis using False iff by auto
  next
    case True
    show ?thesis
    proof (cases "length payload div ?n = nat h * nat w")
      case False
      then have "record_to_array record value_field = Inl ValueError_reshape"
        unfolding run using True
        by (simp add: frombuffer_bytes reshape_nonneg [OF assms(5,6)])
      then show ?thesis using False iff by auto
    next
      case eq: True
      then have "\<exists>arr. record_to_array record value_field = Inr arr \<and>
                   dtype arr = d \<and> shape arr = [nat h, nat w]"
        unfolding run using True
        by (simp add: frombuffer_bytes reshape_nonneg [OF assms(5,6)])
      then show ?thesis using True eq iff by auto
    qed
  qed
qed

theorem decode_succeeds_iff_exact_length_witness:
  "resolve_value_field (int16_record [1, 2, 3]) None = Inr ''band_1_int16'' \<and>
   np_dtype (last (str_split CHR ''_'' ''band_1_int16'')) = Inr Int16 \<and>
   int16_record [1, 2, 3] ''block_height'' = Some (PInt 2) \<and>
   int16_record [1, 2, 3] ''block_width'' = Some (PInt 2) \<and>
   (0::int) \<le> 2 \<and>
   int16_record [1, 2, 3] ''band_1_int16'' = Some (PBytes [1, 2, 3]) \<and>
   int (length [1, 2, 3 :: byte]) \<noteq> 2 * 2 * int (itemsize Int16) \<and>
   (\<exists>e. record_to_array (int16_record [1, 2, 3]) None = Inl e \<and> is_ShapeMismatchError e)"
proof -
  have a: "resolve_value_field (int16_record [1, 2, 3]) None = Inr ''band_1_int16''"
    by (simp add: int16_record_def resolve_value_field_def getitem_def)
  have b: "np_dtype (last (str_split CHR ''_'' ''band_1_int16'')) = Inr Int16"
    by (simp add: np_dtype_def all_dtypes_def)
  have c: "int16_record [1, 2, 3] ''block_height'' = Some (PInt 2)"
    by (simp add: int16_record_def)
  have d: "int16_record [1, 2, 3] ''block_width'' = Some (PInt 2)"
    by (simp add: int16_record_def)
  have e: "(0::int) \<le> 2"
    by simp
  have f: "int16_record [1, 2, 3] ''band_1_int16'' = Some (PBytes [1, 2, 3])"
    by (simp add: int16_record_def)
  have g: "int (length [1, 2, 3 :: byte]) \<noteq> 2 * 2 * int (itemsize Int16)"
    by simp
  show ?thesis
    using a b c d e f g decode_succeeds_iff_exact_length [OF a b c d e e f] by blast
qed

section \<open>Reprojection: properties\<close>

lemma reproject_columns_frame:
  assumes "\<forall>(lon_col, lat_col) \<in> set cols. lon_col \<in> F \<and> lat_col \<in> F"
    and "reproject_columns L src dst cols rcd = (rcd', e)"
  shows "(\<forall>k. k \<notin> F \<longrightarrow> rcd' k = rcd k) \<and> dom rcd' = dom rcd"
  using assms
proof (induction cols arbitrary: rcd)
  case Nil
  then show ?case by simp
next
  case (Cons col cols)
  obtain lon_col lat_col where col: "col = (lon_col, lat_col)"
    by (cases col)
  have inF: "lon_col \<in> F" "lat_col \<in> F"
    using Cons.prems(1) col by auto
  show ?case
  proof (cases "and_then (getitem rcd lon_col) (\<lambda>xx.
                 and_then (getitem rcd lat_col) (\<lambda>yy.
                   transformer_transform L src dst (xx, yy)))")
    case (Inl err)
    then show ?thesis using Cons.prems(2) col by simp
  next
    case (Inr xy)
    obtain x y where xy: "xy = (x, y)" by (cases xy)
    have present: "lon_col \<in> dom rcd" "lat_col \<in> dom rcd"
      using Inr by (auto simp: getitem_def split: option.splits)
    let ?next = "rcd(lon_col \<mapsto> x, lat_col \<mapsto> y)"
    have step: "reproject_columns L src dst cols ?next = (rcd', e)"
      using Cons.prems(2) col Inr xy by simp
    have rest: "\<forall>(lon_col, lat_col) \<in> set cols. lon_col \<in> F \<and> lat_col \<in> F"
      using Cons.prems(1) by simp
    from Cons.IH [OF rest step]
    have "(\<forall>k. k \<notin> F \<longrightarrow> rcd' k = ?next k) \<and> dom rcd' = dom ?next" .
    moreover have "\<forall>k. k \<notin> F \<longrightarrow> ?next k = rcd k"
      using inF by auto
    moreover have "dom ?next = dom rcd"
      using present by auto
    ultimately show ?thesis by simp
  qed
qed

lemma corner_columns_are_coordinates:
  "\<forall>(lon_col, lat_col) \<in> set corner_columns.
     lon_col \<in> coordinate_fields \<and> lat_col \<in> coordinate_fields"
  by (simp add: corner_columns_def coordinate_fields_def)

lemma reproject_record_frame:
  assumes "reproject_record L rcd src_crs dst_crs = (rcd', e)"
  shows "(\<forall>k. k \<notin> coordinate_fields \<longrightarrow> rcd' k = rcd k) \<and> dom rcd' = dom rcd"
proof (cases "and_then (import_rasterio L) (\<lambda>_.
               and_then (crs_from_string L src_crs) (\<lambda>src.
               and_then (crs_from_string L dst_crs) (\<lambda>dst. Inr (src, dst))))")
  case (Inl err)
  then show ?thesis using assms by (simp add: reproject_record_def)
next
  case (Inr sd)
  obtain src dst where sd: "sd = (src, dst)" by (cases sd)
  have "reproject_columns L src dst corner_columns rcd = (rcd', e)"
    using assms Inr sd by (simp add: reproject_record_def)
  from reproject_columns_frame [OF corner_columns_are_coordinates this]
  show ?thesis .
qed

lemma reproject_zeros_record:
  "reproject_record (libs_for utm_dataset) zeros_record ''EPSG:32633'' ''EPSG:4326''
   = (zeros_record_shifted, None)"
  by (simp add: reproject_record_def import_rasterio_def libs_for_def corner_columns_def
        getitem_def zeros_record_def zeros_record_shifted_def)

text \<open>
  C7 (reprojection isolation). For every record held at a reference \<open>r\<close> and every pair
  of CRS strings, \<^verbatim>\<open>reproject_record\<close> leaves every other object alone, changes no
  entry of the record beside the eight coordinate fields (so \<^verbatim>\<open>block_height\<close>,
  \<^verbatim>\<open>block_width\<close>, \<^verbatim>\<open>attrs\<close> and the payload entry stay as they are), adds and
  removes no key, and what it returns is the reference \<open>r\<close> itself. This holds also when
  the call raises halfway.
\<close>

theorem reproject_changes_only_coordinates:
  assumes "reproject_record_at L h r src_crs dst_crs = (h', out)"
  shows "(\<forall>a. a \<noteq> r \<longrightarrow> h' a = h a) \<and>
         (\<forall>k. k \<notin> coordinate_fields \<longrightarrow> h' r k = h r k) \<and>
         dom (h' r) = dom (h r) \<and>
         (\<forall>r'. out = Inr r' \<longrightarrow> r' = r)"
proof -
  obtain rcd e where run: "reproject_record L (h r) src_crs dst_crs = (rcd, e)"
    by (cases "reproject_record L (h r) src_crs dst_crs")
  have h': "h' = h(r := rcd)" and out: "out = (case e of None \<Rightarrow> Inr r | Some err \<Rightarrow> Inl err)"
    using assms run by (auto simp: reproject_record_at_def split: option.splits)
  show ?thesis
    using reproject_record_frame [OF run] by (auto simp: h' out split: option.splits)
qed

theorem reproject_changes_only_coordinates_witness:
  "reproject_record_at (libs_for utm_dataset) zeros_heap 0 ''EPSG:32633'' ''EPSG:4326''
     = (zeros_heap(0 := zeros_record_shifted), Inr 0) \<and>
   (zeros_heap(0 := zeros_record_shifted)) 1 = zeros_heap 1 \<and>
   (zeros_heap(0 := zeros_record_shifted)) 0 ''block_height'' = zeros_heap 0 ''block_height'' \<and>
   (zeros_heap(0 := zeros_record_shifted)) 0 ''block_width'' = zeros_heap 0 ''block_width'' \<and>
   (zeros_heap(0 := zeros_record_shifted)) 0 ''attrs'' = zeros_heap 0 ''attrs'' \<and>
   (zeros_heap(0 := zeros_record_shifted)) 0 ''band_1_uint8'' = zeros_heap 0 ''band_1_uint8'' \<and>
   dom ((zeros_heap(0 := zeros_record_shifted)) 0) = dom (zeros_heap 0)"
proof -
  have run: "reproject_record_at (libs_for utm_dataset) zeros_heap 0 ''EPSG:32633'' ''EPSG:4326''
             = (zeros_heap(0 := zeros_record_shifted), Inr 0)"
    by (simp add: reproject_record_at_def reproject_zeros_record zeros_heap_def)
  note frame = reproject_changes_only_coordinates [OF run]
  have other: "(zeros_heap(0 := zeros_record_shifted)) 1 = zeros_heap 1"
    using frame by simp
  have fields: "k \<notin> coordinate_fields \<Longrightarrow>
                (zeros_heap(0 := zeros_record_shifted)) 0 k = zeros_heap 0 k" for k
    using frame by blast
  have "''block_height'' \<notin> coordinate_fields" "''block_width'' \<notin> coordinate_fields"
    "''attrs'' \<notin> coordinate_fields" "''band_1_uint8'' \<notin> coordinate_fields"
    by (simp_all add: coordinate_fields_def)
  then show ?thesis
    using run other frame fields by blast
qed

section \<open>The round trip\<close>

lemma coordinate_fields_fixed: "coordinate_fields \<subseteq> fixed_keys"
  by (simp add: coordinate_fields_def fixed_keys_def)

lemma record_to_array_ignores_coordinates:
  assumes same: "\<forall>k. k \<notin> coordinate_fields \<longrightarrow> rcd' k = rcd k"
    and key: "resolve_value_field rcd None = Inr key"
    and other: "key \<notin> coordinate_fields"
  shows "record_to_array rcd' None = record_to_array rcd None"
proof -
  have fixed: "''attrs'' \<notin> coordinate_fields" "''block_height'' \<notin> coordinate_fields"
    "''block_width'' \<notin> coordinate_fields"
    by (simp_all add: coordinate_fields_def)
  have get: "getitem rcd' k = getitem rcd k" if "k \<notin> coordinate_fields" for k
    using same that by (simp add: getitem_def)
  have key': "resolve_value_field rcd' None = Inr key"
    using key by (simp add: resolve_value_field_def get [OF fixed(1)])
  show ?thesis
    unfolding record_to_array_def key key'
    by (simp add: get [OF fixed(2)] get [OF fixed(3)] get [OF other])
qed

lemma decode_reprojected:
  assumes ok: "ndarray_ok x" and hw: "shape x = [h, w]"
    and enc: "array_to_record x t r c f crs band = Inr rcd"
  shows "record_to_array (fst (reproject_record L rcd src_crs dst_crs)) None = Inr x"
proof -
  obtain rcd' e where run: "reproject_record L rcd src_crs dst_crs = (rcd', e)"
    by (cases "reproject_record L rcd src_crs dst_crs")
  have same: "\<forall>k. k \<notin> coordinate_fields \<longrightarrow> rcd' k = rcd k"
    using reproject_record_frame [OF run] by simp
  have other: "f @ ''_'' @ dtype_name (dtype x) \<notin> coordinate_fields"
    using key_not_fixed [of f "dtype x"] coordinate_fields_fixed by blast
  have "record_to_array rcd' None = record_to_array rcd None"
    using same encoded_fields(4) [OF hw enc] other
    by (rule record_to_array_ignores_coordinates)
  then show ?thesis
    using decode_encoded [OF ok hw enc] run by simp
qed

text \<open>
  C1 (round trip). For every 2-D array \<open>x\<close> of a supported fixed-width type whose
  elements fit the type, and every affine transform, offsets, field name, CRS and band,
  decoding the record that encoding produces, with no explicit field name, returns \<open>x\<close>:
  the same type, the same shape and the same elements, compared as bit patterns. A
  reprojection of the record in between does not change this, since it never touches
  what decoding reads.
\<close>

theorem roundtrip_decode_encode:
  assumes "ndarray_ok x" and "shape x = [h, w]"
  shows "and_then (array_to_record x t row_off col_off value_field crs band)
           (\<lambda>record. record_to_array record None) = Inr x \<and>
         and_then (array_to_record x t row_off col_off value_field crs band)
           (\<lambda>record. record_to_array (fst (reproject_record L record src_crs dst_crs)) None)
           = Inr x"
proof -
  obtain rcd where enc: "array_to_record x t row_off col_off value_field crs band = Inr rcd"
    using array_to_record_2d [OF assms(2)] by blast
  show ?thesis
    unfolding enc
    using decode_encoded [OF assms enc] decode_reprojected [OF assms enc] by simp
qed

theorem roundtrip_decode_encode_witness:
  "ndarray_ok block_int16 \<and> shape block_int16 = [2, 2] \<and>
   and_then (array_to_record block_int16 north_up 4 6 ''band_1'' ''EPSG:32633'' 1)
     (\<lambda>record. record_to_array record None) = Inr block_int16 \<and>
   and_then (array_to_record block_int16 north_up 4 6 ''band_1'' ''EPSG:32633'' 1)
     (\<lambda>record. record_to_array
        (fst (reproject_record (libs_for utm_dataset) record ''EPSG:32633'' ''EPSG:4326'')) None)
     = Inr block_int16"
  using roundtrip_decode_encode [of block_int16 2 2 north_up 4 6 "''band_1''" "''EPSG:32633''" 1
          "libs_for utm_dataset" "''EPSG:32633''" "''EPSG:4326''"]
  by (simp add: block_int16_def ndarray_ok_def)


section \<open>The raster source adapter: properties\<close>




lemma upper_utm: "str_upper ''EPSG:32633'' \<noteq> ''EPSG:4326''"
  by code_simp

lemma upper_epsg: "str_upper ''EPSG:4326'' = ''EPSG:4326''"
  by code_simp

text \<open>
  The check \<^verbatim>\<open>if not input_crs\<close> is reached only when the raster has a CRS object.
  It raises when the effective CRS string is empty.
\<close>

lemma empty_crs_string_raises_value_error:
  assumes "rasterio_installed L"
    and "rasterio_open L file_path = Inr ds"
    and "ds_crs ds = Some raster_crs"
    and "(case input_crs of None \<Rightarrow> raster_crs | Some s \<Rightarrow> s) = []"
  shows "rasterio_windows_to_records L file_path band input_crs = ([], Some ValueError_crs)"
  using assms by (simp add: rasterio_windows_to_records_def import_rasterio_def)

lemma no_crs_object_raises_attribute_error:
  assumes "rasterio_installed L"
    and "rasterio_open L file_path = Inr ds"
    and "ds_crs ds = None"
  shows "rasterio_windows_to_records L file_path band input_crs = ([], Some AttributeError)"
  using assms by (simp add: rasterio_windows_to_records_def import_rasterio_def)

text \<open>
  C9 (missing CRS). The claim asks for the ValueError of the check
  \<^verbatim>\<open>if not input_crs\<close>, the MissingCRSError of the specification, when neither
  \<^verbatim>\<open>input_crs\<close> nor the raster gives a CRS. The code does not get there: on a raster
  with no embedded CRS, \<^verbatim>\<open>raster_dataset.crs\<close> is \<^verbatim>\<open>None\<close> and the call
  \<^verbatim>\<open>raster_dataset.crs.to_string()\<close> one line after the file is opened raises
  AttributeError. No record is yielded, but the error is not the one the check was
  written to raise; and the same AttributeError ends the iteration when the caller
  does supply \<^verbatim>\<open>input_crs\<close>.
\<close>

theorem missing_crs_raises_attribute_error:
  "rasterio_installed (libs_for no_crs_dataset) \<and>
   rasterio_open (libs_for no_crs_dataset) ''a.tif'' = Inr no_crs_dataset \<and>
   ds_crs no_crs_dataset = None \<and>
   rasterio_windows_to_records (libs_for no_crs_dataset) ''a.tif'' 1 None
     = ([], Some AttributeError) \<and>
   rasterio_windows_to_records (libs_for no_crs_dataset) ''a.tif'' 1 None
     \<noteq> ([], Some ValueError_crs) \<and>
   rasterio_windows_to_records (libs_for no_crs_dataset) ''a.tif'' 1 (Some ''EPSG:4326'')
     = ([], Some AttributeError)"
proof -
  have a: "rasterio_installed (libs_for no_crs_dataset)"
    by (simp add: libs_for_def)
  have b: "rasterio_open (libs_for no_crs_dataset) ''a.tif'' = Inr no_crs_dataset"
    by (simp add: libs_for_def)
  have c: "ds_crs no_crs_dataset = None"
    by (simp add: no_crs_dataset_def)
  show ?thesis
    using a b c no_crs_object_raises_attribute_error [OF a b c] by simp
qed




section \<open>The chunked upload: properties\<close>

lemma records_to_bigquery_accepts:
  assumes "bigquery_installed L"
    and "\<forall>rows destination. load_table_from_dataframe L rows destination = None"
  shows "records_to_bigquery L (rows, None) table_id dataset_id project_id =
         ([(rows, project_id @ ''.'' @ dataset_id @ ''.'' @ table_id)], None)"
  using assms by (simp add: records_to_bigquery_def import_bigquery_def)

lemma chunk_loop_accepts:
  assumes "bigquery_installed L"
    and "\<forall>rows destination. load_table_from_dataframe L rows destination = None"
    and "0 < k" and "length buf < nat k"
  shows "\<exists>new rest.
           chunk_loop L table_id dataset_id project_id k recs buf calls pbar =
             (calls @ new, pbar + k * int (length new), Inr rest) \<and>
           concat (map fst new) @ rest = buf @ recs \<and>
           (\<forall>c \<in> set new. length (fst c) = nat k) \<and>
           length rest < nat k"
  using assms(4)
proof (induction recs arbitrary: buf calls pbar)
  case Nil
  then show ?case by simp
next
  case (Cons r recs)
  let ?records = "buf @ [r]"
  let ?dest = "project_id @ ''.'' @ dataset_id @ ''.'' @ table_id"
  show ?case
  proof (cases "k \<le> int (length ?records)")
    case True
    then have full: "length ?records = nat k"
      using Cons.prems assms(3) by simp
    have "length ([] :: pydict list) < nat k"
      using assms(3) by simp
    from Cons.IH [OF this, of "calls @ [(?records, ?dest)]" "pbar + k"]
    obtain new rest where
      run: "chunk_loop L table_id dataset_id project_id k recs [] (calls @ [(?records, ?dest)])
              (pbar + k) = ((calls @ [(?records, ?dest)]) @ new, (pbar + k) + k * int (length new), Inr rest)"
      and parts: "concat (map fst new) @ rest = [] @ recs"
      and sizes: "\<forall>c \<in> set new. length (fst c) = nat k"
      and short: "length rest < nat k"
      by blast
    have "chunk_loop L table_id dataset_id project_id k (r # recs) buf calls pbar =
          (calls @ (?records, ?dest) # new, pbar + k * int (length ((?records, ?dest) # new)), Inr rest)"
      using True run
      by (simp add: records_to_bigquery_accepts [OF assms(1,2)] algebra_simps)
    moreover have "concat (map fst ((?records, ?dest) # new)) @ rest = buf @ r # recs"
      using parts by simp
    moreover have "\<forall>c \<in> set ((?records, ?dest) # new). length (fst c) = nat k"
      using sizes full by simp
    ultimately show ?thesis using short by blast
  next
    case False
    then have "length ?records < nat k"
      by simp
    from Cons.IH [OF this, of calls pbar]
    obtain new rest where
      run: "chunk_loop L table_id dataset_id project_id k recs ?records calls pbar =
              (calls @ new, pbar + k * int (length new), Inr rest)"
      and parts: "concat (map fst new) @ rest = ?records @ recs"
      and sizes: "\<forall>c \<in> set new. length (fst c) = nat k"
      and short: "length rest < nat k"
      by blast
    have "chunk_loop L table_id dataset_id project_id k (r # recs) buf calls pbar =
          (calls @ new, pbar + k * int (length new), Inr rest)"
      using False run by simp
    then show ?thesis using parts sizes short by auto
  qed
qed

lemma length_concat_chunks:
  "\<forall>c \<in> set new. length (fst c) = n \<Longrightarrow> length (concat (map fst new)) = length new * n"
  by (induction new) auto

lemma generator_done_blocks_counted:
  assumes "rasterio_windows_to_records L file_path band input_crs = (recs, None)"
  shows "\<exists>n. get_number_of_blocks L file_path = Inr n"
  using assms
  by (cases "rasterio_installed L"; cases "rasterio_open L file_path")
     (auto simp: rasterio_windows_to_records_def get_number_of_blocks_def import_rasterio_def)

lemma ceil_div_parts:
  fixes m k r :: nat
  assumes "0 < k" and "r < k"
  shows "(m * k + r + k - 1) div k = m + (if r = 0 then 0 else 1)"
proof (cases "r = 0")
  case True
  have e: "m * k + r + k - 1 = m * k + (k - 1)"
    using True assms(1) by simp
  have "(m * k + (k - 1)) div k = m"
    using assms(1) by (subst div_mult_self3) simp_all
  then show ?thesis unfolding e using True by simp
next
  case False
  have e: "m * k + r + k - 1 = (m + 1) * k + (r - 1)"
    using False by (simp add: algebra_simps)
  have "((m + 1) * k + (r - 1)) div k = m + 1"
    using assms by (subst div_mult_self3) simp_all
  then show ?thesis unfolding e using False by simp
qed

text \<open>
  C8 (chunking). Let the source yield \<open>N\<close> records and end without an exception, let
  \<^verbatim>\<open>chunk_size\<close> be \<open>k > 0\<close>, and let BigQuery be installed and accept every load.
  Then \<^verbatim>\<open>rasterio_to_bigquery\<close> returns \<^verbatim>\<open>True\<close> after exactly
  \<open>(N + k - 1) div k\<close> loads, the ceiling of \<open>N / k\<close>; each load carries \<open>k\<close> records,
  but the last one carries \<open>N mod k\<close> when \<open>k\<close> does not divide \<open>N\<close>; the loads carry
  the records of the source in order; and there is no load when \<open>N = 0\<close>.
\<close>

theorem chunked_upload_calls:
  assumes "0 < chunk_size"
    and "bigquery_installed L"
    and "\<forall>rows destination. load_table_from_dataframe L rows destination = None"
    and "rasterio_windows_to_records L file_path band (epsg_if_int input_crs) = (recs, None)"
  shows "\<exists>calls pbar.
           rasterio_to_bigquery L file_path table_id dataset_id project_id band
             (Some chunk_size) input_crs = (calls, pbar, Inr True) \<and>
           length calls = (length recs + nat chunk_size - 1) div nat chunk_size \<and>
           (\<forall>i < length calls.
              length (fst (calls ! i)) =
                (if Suc i < length calls \<or> length recs mod nat chunk_size = 0
                 then nat chunk_size else length recs mod nat chunk_size)) \<and>
           concat (map fst calls) = recs \<and>
           (recs = [] \<longrightarrow> calls = [])"
proof -
  let ?k = "nat chunk_size"
  let ?dest = "project_id @ ''.'' @ dataset_id @ ''.'' @ table_id"
  have kpos: "0 < ?k" using assms(1) by simp
  obtain n where blocks: "get_number_of_blocks L file_path = Inr n"
    using generator_done_blocks_counted [OF assms(4)] by blast
  have "length ([] :: pydict list) < ?k" using kpos by simp
  from chunk_loop_accepts [OF assms(2,3,1) this, of table_id dataset_id project_id recs "[]" 0]
  obtain new rest where
    run: "chunk_loop L table_id dataset_id project_id chunk_size recs [] [] 0 =
            (new, chunk_size * int (length new), Inr rest)"
    and parts: "concat (map fst new) @ rest = recs"
    and sizes: "\<forall>c \<in> set new. length (fst c) = ?k"
    and short: "length rest < ?k"
    by auto
  have total: "length recs = length new * ?k + length rest"
    using parts length_concat_chunks [OF sizes] by (metis length_append)
  have quot: "length recs div ?k = length new" and remd: "length recs mod ?k = length rest"
    using total short by simp_all
  show ?thesis
  proof (cases "rest = []")
    case True
    have res: "rasterio_to_bigquery L file_path table_id dataset_id project_id band
                 (Some chunk_size) input_crs = (new, chunk_size * int (length new), Inr True)"
      using assms(4) blocks run True by (simp add: rasterio_to_bigquery_def)
    have "length new = (length recs + ?k - 1) div ?k"
      using ceil_div_parts [OF kpos short, of "length new"] total True by simp
    moreover have "\<forall>i < length new. length (fst (new ! i)) =
            (if Suc i < length new \<or> length recs mod ?k = 0 then ?k else length recs mod ?k)"
      using sizes remd True by simp
    moreover have "concat (map fst new) = recs" using parts True by simp
    moreover have "recs = [] \<longrightarrow> new = []"
      using total kpos by auto
    ultimately show ?thesis using res by blast
  next
    case False
    let ?calls = "new @ [(rest, ?dest)]"
    have res: "rasterio_to_bigquery L file_path table_id dataset_id project_id band
                 (Some chunk_size) input_crs =
               (?calls, chunk_size * int (length new) + int (length rest), Inr True)"
      using assms(4) blocks run False
      by (simp add: rasterio_to_bigquery_def records_to_bigquery_accepts [OF assms(2,3)])
    have rpos: "0 < length rest" using False by simp
    have "length ?calls = (length recs + ?k - 1) div ?k"
      using ceil_div_parts [OF kpos short, of "length new"] total False by simp
    moreover have "\<forall>i < length ?calls. length (fst (?calls ! i)) =
            (if Suc i < length ?calls \<or> length recs mod ?k = 0 then ?k else length recs mod ?k)"
    proof (intro allI impI)
      fix i assume "i < length ?calls"
      then consider "i < length new" | "i = length new" by force
      then show "length (fst (?calls ! i)) =
            (if Suc i < length ?calls \<or> length recs mod ?k = 0 then ?k else length recs mod ?k)"
      proof cases
        case 1
        then show ?thesis using sizes by (simp add: nth_append)
      next
        case 2
        then show ?thesis using remd rpos by (simp add: nth_append)
      qed
    qed
    moreover have "concat (map fst ?calls) = recs" using parts by simp
    moreover have "recs = [] \<longrightarrow> ?calls = []"
      using total rpos by auto
    ultimately show ?thesis using res by blast
  qed
qed

lemma utm_dataset_as_4326:
  "snd (rasterio_windows_to_records (libs_for utm_dataset) ''a.tif'' 1 (Some ''EPSG:4326'')) = None \<and>
   length (fst (rasterio_windows_to_records (libs_for utm_dataset) ''a.tif'' 1
                  (Some ''EPSG:4326''))) = 2"
  by (simp add: rasterio_windows_to_records_def import_rasterio_def libs_for_def
        utm_dataset_def window_to_record_def upper_epsg Let_def
        array_to_record_2d zeros_2x3_def split: prod.splits)

lemma epsg_if_int_4326: "epsg_if_int (Some (CrsInt 4326)) = Some ''EPSG:4326''"
  by code_simp

theorem chunked_upload_calls_witness:
  "(0::int) < 1 \<and>
   bigquery_installed (libs_for utm_dataset) \<and>
   (\<forall>rows destination.
      load_table_from_dataframe (libs_for utm_dataset) rows destination = None) \<and>
   snd (rasterio_windows_to_records (libs_for utm_dataset) ''a.tif'' 1
          (epsg_if_int (Some (CrsInt 4326)))) = None \<and>
   (\<exists>calls pbar.
      rasterio_to_bigquery (libs_for utm_dataset) ''a.tif'' ''table'' ''dataset'' ''project'' 1
        (Some 1) (Some (CrsInt 4326)) = (calls, pbar, Inr True) \<and>
      length calls = 2 \<and>
      length (fst (calls ! 0)) = 1 \<and>
      length (fst (calls ! 1)) = 1)"
proof -
  let ?L = "libs_for utm_dataset"
  let ?gen = "rasterio_windows_to_records ?L ''a.tif'' 1 (epsg_if_int (Some (CrsInt 4326)))"
  have a: "(0::int) < 1"
    by simp
  have b: "bigquery_installed ?L"
    by (simp add: libs_for_def)
  have c: "\<forall>rows destination. load_table_from_dataframe ?L rows destination = None"
    by (simp add: libs_for_def)
  have n: "snd ?gen = None" and two: "length (fst ?gen) = 2"
    using utm_dataset_as_4326 unfolding epsg_if_int_4326 by simp_all
  have d: "?gen = (fst ?gen, None)"
    using n by (simp add: prod_eq_iff)
  from chunked_upload_calls [OF a b c d, of "''table''" "''dataset''" "''project''"]
  obtain calls pbar where
    run: "rasterio_to_bigquery ?L ''a.tif'' ''table'' ''dataset'' ''project'' 1
            (Some 1) (Some (CrsInt 4326)) = (calls, pbar, Inr True)"
    and count: "length calls = (length (fst ?gen) + nat 1 - 1) div nat 1"
    and sizes: "\<forall>i < length calls. length (fst (calls ! i)) =
                  (if Suc i < length calls \<or> length (fst ?gen) mod nat 1 = 0
                   then nat 1 else length (fst ?gen) mod nat 1)"
    by blast
  have "length calls = 2"
    using count two by simp
  moreover from this sizes have "length (fst (calls ! 0)) = 1" "length (fst (calls ! 1)) = 1"
    by simp_all
  ultimately show ?thesis
    using a b c n run by blast
qed

end
